theory Spec2Isabelle
  imports Main "HOL-Library.Word"
begin

unbundle bit_operations_syntax

section \<open>The ImageJ ROI decoder of ijroi.py\<close>

text \<open>
  The decoder \<open>read_roi\<close> reads a binary record from a file object through
  \<open>fileobj.read\<close> and \<open>fileobj.seek\<close> (relative, forwards only). The file object
  is modelled by the list of bytes it has not delivered yet: \<open>read(n)\<close> hands out at
  most \<open>n\<close> of them, a relative seek drops them (seeking past the end leaves nothing
  to read, as \<open>BytesIO\<close> and disk files do). Python integers are \<open>int\<close>. Every
  \<open>raise\<close> of the source is a constructor of \<open>error\<close>.
\<close>

type_synonym byte = "8 word"
type_synonym fileobj = "byte list"

text \<open>
  A \<open>numpy.float32\<close> read from the file is kept as its IEEE-754 bit pattern:
  \<open>getfloat\<close> only reinterprets the 32 bits it read (\<open>view\<close>). The one
  arithmetic operation \<open>read_roi\<close> applies to such values is \<open>+\<close>, which NumPy
  computes (binary32 addition, with its rounding and NaN rules); the sum is kept as
  the constructor \<open>Float32_add\<close> of its two operands and not evaluated.
\<close>

datatype float32 =
    Float32 "32 word"
  | Float32_add float32 float32

type_synonym int16 = "16 word"

datatype error =
    UnexpectedEOF                \<comment> \<open>IOError('readroi: Unexpected EOF')\<close>
  | MagicNotFound                \<comment> \<open>ValueError('Magic number not found')\<close>
  | RoiTypeNotSupported int      \<comment> \<open>NotImplementedError('roireader: ROI type %s not supported')\<close>
  | RoiSubtypeNotSupported int   \<comment> \<open>NotImplementedError('roireader: ROI subtype %s not supported (!= 0)')\<close>
  | NameError                    \<comment> \<open>NameError: name 'file_obj' is not defined\<close>

text \<open>The value \<open>read_roi\<close> returns: an n-by-2 array of dtype int16 or float32, a row
  per point, each row (row, column).\<close>

datatype points =
    PointsInt16 "(int16 \<times> int16) list"
  | PointsFloat32 "(float32 \<times> float32) list"

type_synonym 'a reader = "fileobj \<Rightarrow> error + 'a \<times> fileobj"

definition ret :: "'a \<Rightarrow> 'a reader" where
  "ret v f = Inr (v, f)"

definition raise :: "error \<Rightarrow> 'a reader" where
  "raise e f = Inl e"

definition and_then :: "'a reader \<Rightarrow> ('a \<Rightarrow> 'b reader) \<Rightarrow> 'b reader" where
  "and_then m k f = (case m f of Inl e \<Rightarrow> Inl e | Inr (v, f') \<Rightarrow> k v f')"

definition fileobj_read :: "nat \<Rightarrow> byte list reader" where
  "fileobj_read n f = Inr (take n f, drop n f)"

definition fileobj_seek_cur :: "nat \<Rightarrow> unit reader" where
  "fileobj_seek_cur n f = Inr ((), drop n f)"

subsection \<open>Constants of \<open>read_roi\<close>\<close>

abbreviation (input) SUB_PIXEL_RESOLUTION :: int where "SUB_PIXEL_RESOLUTION \<equiv> 128"

text \<open>The class \<open>RoiType\<close>.\<close>

abbreviation (input) POLYGON :: int where "POLYGON \<equiv> 0"
abbreviation (input) RECT :: int where "RECT \<equiv> 1"
abbreviation (input) OVAL :: int where "OVAL \<equiv> 2"
abbreviation (input) LINE :: int where "LINE \<equiv> 3"
abbreviation (input) FREELINE :: int where "FREELINE \<equiv> 4"
abbreviation (input) POLYLINE :: int where "POLYLINE \<equiv> 5"
abbreviation (input) NOROI :: int where "NOROI \<equiv> 6"
abbreviation (input) FREEHAND :: int where "FREEHAND \<equiv> 7"
abbreviation (input) TRACED :: int where "TRACED \<equiv> 8"
abbreviation (input) ANGLE :: int where "ANGLE \<equiv> 9"
abbreviation (input) POINT :: int where "POINT \<equiv> 10"

text \<open>\<open>b'Iout'\<close>\<close>

definition Iout :: "byte list" where
  "Iout = [0x49, 0x6F, 0x75, 0x74]"

subsection \<open>The getters\<close>

definition get8 :: "int reader" where
  "get8 = and_then (fileobj_read 1) (\<lambda>s.
     if s = [] then raise UnexpectedEOF else ret (uint (hd s)))"

definition get16 :: "int reader" where
  "get16 = and_then get8 (\<lambda>b0. and_then get8 (\<lambda>b1. ret (push_bit 8 b0 OR b1)))"

definition get32 :: "int reader" where
  "get32 = and_then get16 (\<lambda>s0. and_then get16 (\<lambda>s1. ret (push_bit 16 s0 OR s1)))"

text \<open>
  \<open>np.int32(get32()).view(np.float32)\<close>: the 32 bits, unchanged (\<open>np.int32\<close> of a
  value from \<open>2^31\<close> on wraps to the negative integer with the same bits).
\<close>

definition getfloat :: "float32 reader" where
  "getfloat = and_then get32 (\<lambda>v. ret (Float32 (word_of_int v)))"

subsection \<open>The header\<close>

text \<open>The local variables of \<open>read_roi\<close> that hold the header fields (\<open>top\<close> is
  the field \<open>top'\<close>).\<close>

record roi_header =
  version :: int
  roi_type :: int
  top' :: int
  left :: int
  bottom :: int
  right :: int
  n_coordinates :: int
  x1 :: float32
  y1 :: float32
  x2 :: float32
  y2 :: float32
  stroke_width :: int
  shape_roi_size :: int
  stroke_color :: int
  fill_color :: int
  subtype :: int
  options :: int
  arrow_style :: int
  arrow_head_size :: int
  rect_arc_size :: int
  position :: int
  header2offset :: int

text \<open>Lines 68 to 98 of ijroi.py: the magic, then the fields in wire order.\<close>

definition read_header :: "roi_header reader" where
  "read_header =
     and_then (fileobj_read 4) (\<lambda>magic.
     if magic \<noteq> Iout then raise MagicNotFound else
     and_then get16 (\<lambda>version.
     and_then get8 (\<lambda>roi_type.
     and_then get8 (\<lambda>_.
     and_then get16 (\<lambda>top.
     and_then get16 (\<lambda>left.
     and_then get16 (\<lambda>bottom.
     and_then get16 (\<lambda>right.
     and_then get16 (\<lambda>n_coordinates.
     and_then getfloat (\<lambda>x1.
     and_then getfloat (\<lambda>y1.
     and_then getfloat (\<lambda>x2.
     and_then getfloat (\<lambda>y2.
     and_then get16 (\<lambda>stroke_width.
     and_then get32 (\<lambda>shape_roi_size.
     and_then get32 (\<lambda>stroke_color.
     and_then get32 (\<lambda>fill_color.
     and_then get16 (\<lambda>subtype.
     and_then get16 (\<lambda>options.
     and_then get8 (\<lambda>arrow_style.
     and_then get8 (\<lambda>arrow_head_size.
     and_then get16 (\<lambda>rect_arc_size.
     and_then get32 (\<lambda>position.
     and_then get32 (\<lambda>header2offset.
     ret \<lparr> version = version, roi_type = roi_type, top' = top, left = left,
           bottom = bottom, right = right, n_coordinates = n_coordinates,
           x1 = x1, y1 = y1, x2 = x2, y2 = y2, stroke_width = stroke_width,
           shape_roi_size = shape_roi_size, stroke_color = stroke_color,
           fill_color = fill_color, subtype = subtype, options = options,
           arrow_style = arrow_style, arrow_head_size = arrow_head_size,
           rect_arc_size = rect_arc_size, position = position,
           header2offset = header2offset \<rparr>))))))))))))))))))))))))"

text \<open>Line 104.\<close>

definition subPixelResolution :: "roi_header \<Rightarrow> bool" where
  "subPixelResolution h \<longleftrightarrow> (options h AND SUB_PIXEL_RESOLUTION) \<noteq> 0 \<and> version h \<ge> 222"

subsection \<open>The point list\<close>

text \<open>\<open>[getc() for i in range(n)]\<close>\<close>

fun get_list :: "'a reader \<Rightarrow> nat \<Rightarrow> 'a list reader" where
  "get_list getc 0 = ret []"
| "get_list getc (Suc n) =
     and_then getc (\<lambda>v. and_then (get_list getc n) (\<lambda>vs. ret (v # vs)))"

text \<open>
  Lines 158 to 173. The array \<open>points\<close> has \<open>n_coordinates\<close> rows; column 1 is
  assigned first, column 0 second, so a row is (second list, first list). In the
  integer branch the array has dtype int16: the Python integers are cast on
  assignment and the in-place additions are done in 16 bits, both with two's
  complement wrap-around (NumPy 1.x, which the code was written for).
\<close>

definition read_points :: "roi_header \<Rightarrow> points reader" where
  "read_points h =
     (if subPixelResolution h then
        and_then (fileobj_seek_cur (nat (4 * n_coordinates h))) (\<lambda>_.
        and_then (get_list getfloat (nat (n_coordinates h))) (\<lambda>col1.
        and_then (get_list getfloat (nat (n_coordinates h))) (\<lambda>col0.
        ret (PointsFloat32 (zip col0 col1)))))
      else
        and_then (get_list get16 (nat (n_coordinates h))) (\<lambda>col1.
        and_then (get_list get16 (nat (n_coordinates h))) (\<lambda>col0.
        ret (PointsInt16 (zip (map (\<lambda>v. word_of_int v + word_of_int (top' h)) col0)
                              (map (\<lambda>v. word_of_int v + word_of_int (left h)) col1))))))"

subsection \<open>\<open>read_roi\<close>\<close>

text \<open>
  Line 116 reads \<open>file_obj.read()\<close>, while the parameter of \<open>read_roi\<close> is
  \<open>fileobj\<close> and the module binds no name \<open>file_obj\<close>: evaluating it raises
  \<open>NameError\<close>, so lines 117 to 145 are never reached.
\<close>

definition read_roi :: "fileobj \<Rightarrow> error + points" where
  "read_roi fileobj =
     (case read_header fileobj of
        Inl e \<Rightarrow> Inl e
      | Inr (h, f) \<Rightarrow>
          if roi_type h \<notin> set [FREEHAND, TRACED, POLYGON, RECT, POINT] then
            Inl (RoiTypeNotSupported (roi_type h))
          else if subtype h \<noteq> 0 then
            Inl (RoiSubtypeNotSupported (subtype h))
          else if shape_roi_size h > 0 then
            Inl NameError
          else if roi_type h = RECT then
            (if subPixelResolution h then
               Inr (PointsFloat32
                 [(y1 h, x1 h), (y1 h, Float32_add (x1 h) (x2 h)),
                  (Float32_add (y1 h) (y2 h), Float32_add (x1 h) (x2 h)),
                  (Float32_add (y1 h) (y2 h), x1 h)])
             else
               Inr (PointsInt16
                 [(word_of_int (top' h), word_of_int (left h)),
                  (word_of_int (top' h), word_of_int (right h)),
                  (word_of_int (bottom h), word_of_int (right h)),
                  (word_of_int (bottom h), word_of_int (left h))]))
          else
            (case read_points h f of Inl e \<Rightarrow> Inl e | Inr (pts, _) \<Rightarrow> Inr pts))"

subsection \<open>The wire layout\<close>

text \<open>
  The big-endian fields of a record \<open>bs\<close> by their byte offsets, and the header as
  the table of offsets lays it out (64 bytes). The lemmas below show that the getters
  and \<open>read_header\<close> read exactly these.
\<close>

definition u8_at :: "byte list \<Rightarrow> nat \<Rightarrow> int" where
  "u8_at bs k = uint (bs ! k)"

definition u16_at :: "byte list \<Rightarrow> nat \<Rightarrow> int" where
  "u16_at bs k = push_bit 8 (u8_at bs k) OR u8_at bs (k + 1)"

definition u32_at :: "byte list \<Rightarrow> nat \<Rightarrow> int" where
  "u32_at bs k = push_bit 16 (u16_at bs k) OR u16_at bs (k + 2)"

definition f32_at :: "byte list \<Rightarrow> nat \<Rightarrow> float32" where
  "f32_at bs k = Float32 (word_of_int (u32_at bs k))"

definition header_at :: "byte list \<Rightarrow> roi_header" where
  "header_at bs =
     \<lparr> version = u16_at bs 4, roi_type = u8_at bs 6, top' = u16_at bs 8, left = u16_at bs 10,
       bottom = u16_at bs 12, right = u16_at bs 14, n_coordinates = u16_at bs 16,
       x1 = f32_at bs 18, y1 = f32_at bs 22, x2 = f32_at bs 26, y2 = f32_at bs 30,
       stroke_width = u16_at bs 34, shape_roi_size = u32_at bs 36, stroke_color = u32_at bs 40,
       fill_color = u32_at bs 44, subtype = u16_at bs 48, options = u16_at bs 50,
       arrow_style = u8_at bs 52, arrow_head_size = u8_at bs 53, rect_arc_size = u16_at bs 54,
       position = u32_at bs 56, header2offset = u32_at bs 60 \<rparr>"


subsection \<open>Example records\<close>

text \<open>A polygon of version 227 with top 5, left 3 and two points: x = 1, 2 and y = 10, 20.\<close>

definition polygon_record :: "byte list" where
  "polygon_record =
    [0x49, 0x6F, 0x75, 0x74, 0x00, 0xE3, 0x00, 0x00,
     0x00, 0x05, 0x00, 0x03, 0x00, 0x10, 0x00, 0x20,
     0x00, 0x02, 0x00, 0x00, 0x00, 0x00, 0x00, 0x00,
     0x00, 0x00, 0x00, 0x00, 0x00, 0x00, 0x00, 0x00,
     0x00, 0x00, 0x00, 0x00, 0x00, 0x00, 0x00, 0x00,
     0x00, 0x00, 0x00, 0x00, 0x00, 0x00, 0x00, 0x00,
     0x00, 0x00, 0x00, 0x00, 0x00, 0x00, 0x00, 0x00,
     0x00, 0x00, 0x00, 0x00, 0x00, 0x00, 0x00, 0x00,
     0x00, 0x01, 0x00, 0x02, 0x00, 0x0A, 0x00, 0x14]"

text \<open>A polygon of version 227 with top 5, left 3 and one point: x = 0x7FFD and y = 0x7FFF.\<close>

definition overflow_record :: "byte list" where
  "overflow_record =
    [0x49, 0x6F, 0x75, 0x74, 0x00, 0xE3, 0x00, 0x00,
     0x00, 0x05, 0x00, 0x03, 0x00, 0x10, 0x00, 0x20,
     0x00, 0x01, 0x00, 0x00, 0x00, 0x00, 0x00, 0x00,
     0x00, 0x00, 0x00, 0x00, 0x00, 0x00, 0x00, 0x00,
     0x00, 0x00, 0x00, 0x00, 0x00, 0x00, 0x00, 0x00,
     0x00, 0x00, 0x00, 0x00, 0x00, 0x00, 0x00, 0x00,
     0x00, 0x00, 0x00, 0x00, 0x00, 0x00, 0x00, 0x00,
     0x00, 0x00, 0x00, 0x00, 0x00, 0x00, 0x00, 0x00,
     0x7F, 0xFD, 0x7F, 0xFF]"

text \<open>A freehand record of version 227 with the sub-pixel bit and one point: the integer copy (1, 2), then x = 1.5 and y = 2.5.\<close>

definition subpixel_record :: "byte list" where
  "subpixel_record =
    [0x49, 0x6F, 0x75, 0x74, 0x00, 0xE3, 0x07, 0x00,
     0x00, 0x05, 0x00, 0x03, 0x00, 0x10, 0x00, 0x20,
     0x00, 0x01, 0x00, 0x00, 0x00, 0x00, 0x00, 0x00,
     0x00, 0x00, 0x00, 0x00, 0x00, 0x00, 0x00, 0x00,
     0x00, 0x00, 0x00, 0x00, 0x00, 0x00, 0x00, 0x00,
     0x00, 0x00, 0x00, 0x00, 0x00, 0x00, 0x00, 0x00,
     0x00, 0x00, 0x00, 0x80, 0x00, 0x00, 0x00, 0x00,
     0x00, 0x00, 0x00, 0x00, 0x00, 0x00, 0x00, 0x00,
     0x00, 0x01, 0x00, 0x02, 0x3F, 0xC0, 0x00, 0x00,
     0x40, 0x20, 0x00, 0x00]"

text \<open>A rectangle of version 227 with top 5, left 3, bottom 16, right 32.\<close>

definition rect_record :: "byte list" where
  "rect_record =
    [0x49, 0x6F, 0x75, 0x74, 0x00, 0xE3, 0x01, 0x00,
     0x00, 0x05, 0x00, 0x03, 0x00, 0x10, 0x00, 0x20,
     0x00, 0x00, 0x00, 0x00, 0x00, 0x00, 0x00, 0x00,
     0x00, 0x00, 0x00, 0x00, 0x00, 0x00, 0x00, 0x00,
     0x00, 0x00, 0x00, 0x00, 0x00, 0x00, 0x00, 0x00,
     0x00, 0x00, 0x00, 0x00, 0x00, 0x00, 0x00, 0x00,
     0x00, 0x00, 0x00, 0x00, 0x00, 0x00, 0x00, 0x00,
     0x00, 0x00, 0x00, 0x00, 0x00, 0x00, 0x00, 0x00]"

text \<open>A rectangle of version 227 with the sub-pixel bit, x1 = 1.5, y1 = 2.5, x2 = 4.0, y2 = 8.0.\<close>

definition rect_subpixel_record :: "byte list" where
  "rect_subpixel_record =
    [0x49, 0x6F, 0x75, 0x74, 0x00, 0xE3, 0x01, 0x00,
     0x00, 0x05, 0x00, 0x03, 0x00, 0x10, 0x00, 0x20,
     0x00, 0x00, 0x3F, 0xC0, 0x00, 0x00, 0x40, 0x20,
     0x00, 0x00, 0x40, 0x80, 0x00, 0x00, 0x41, 0x00,
     0x00, 0x00, 0x00, 0x00, 0x00, 0x00, 0x00, 0x00,
     0x00, 0x00, 0x00, 0x00, 0x00, 0x00, 0x00, 0x00,
     0x00, 0x00, 0x00, 0x80, 0x00, 0x00, 0x00, 0x00,
     0x00, 0x00, 0x00, 0x00, 0x00, 0x00, 0x00, 0x00]"


text \<open>A point record with no coordinates: the 64 bytes of the header alone.\<close>

definition empty_record :: "byte list" where
  "empty_record =
    [0x49, 0x6F, 0x75, 0x74, 0x00, 0xE3, 0x0A, 0x00,
     0x00, 0x05, 0x00, 0x03, 0x00, 0x10, 0x00, 0x20,
     0x00, 0x00, 0x00, 0x00, 0x00, 0x00, 0x00, 0x00,
     0x00, 0x00, 0x00, 0x00, 0x00, 0x00, 0x00, 0x00,
     0x00, 0x00, 0x00, 0x00, 0x00, 0x00, 0x00, 0x00,
     0x00, 0x00, 0x00, 0x00, 0x00, 0x00, 0x00, 0x00,
     0x00, 0x00, 0x00, 0x00, 0x00, 0x00, 0x00, 0x00,
     0x00, 0x00, 0x00, 0x00, 0x00, 0x00, 0x00, 0x00]"

text \<open>An oval (roi_type 2).\<close>

definition oval_record :: "byte list" where
  "oval_record =
    [0x49, 0x6F, 0x75, 0x74, 0x00, 0xE3, 0x02, 0x00,
     0x00, 0x05, 0x00, 0x03, 0x00, 0x10, 0x00, 0x20,
     0x00, 0x00, 0x00, 0x00, 0x00, 0x00, 0x00, 0x00,
     0x00, 0x00, 0x00, 0x00, 0x00, 0x00, 0x00, 0x00,
     0x00, 0x00, 0x00, 0x00, 0x00, 0x00, 0x00, 0x00,
     0x00, 0x00, 0x00, 0x00, 0x00, 0x00, 0x00, 0x00,
     0x00, 0x00, 0x00, 0x00, 0x00, 0x00, 0x00, 0x00,
     0x00, 0x00, 0x00, 0x00, 0x00, 0x00, 0x00, 0x00]"

text \<open>A composite record: shape_roi_size 8, then the floats 0, 1, 2, 4 (a point (x, y) = (1, 2) and a terminator) and 1, 3, 5, 4 (a point (3, 5) and a terminator).\<close>

definition composite_record :: "byte list" where
  "composite_record =
    [0x49, 0x6F, 0x75, 0x74, 0x00, 0xE3, 0x01, 0x00,
     0x00, 0x05, 0x00, 0x03, 0x00, 0x10, 0x00, 0x20,
     0x00, 0x00, 0x00, 0x00, 0x00, 0x00, 0x00, 0x00,
     0x00, 0x00, 0x00, 0x00, 0x00, 0x00, 0x00, 0x00,
     0x00, 0x00, 0x00, 0x00, 0x00, 0x00, 0x00, 0x08,
     0x00, 0x00, 0x00, 0x00, 0x00, 0x00, 0x00, 0x00,
     0x00, 0x00, 0x00, 0x00, 0x00, 0x00, 0x00, 0x00,
     0x00, 0x00, 0x00, 0x00, 0x00, 0x00, 0x00, 0x00,
     0x00, 0x00, 0x00, 0x00, 0x3F, 0x80, 0x00, 0x00,
     0x40, 0x00, 0x00, 0x00, 0x40, 0x80, 0x00, 0x00,
     0x3F, 0x80, 0x00, 0x00, 0x40, 0x40, 0x00, 0x00,
     0x40, 0xA0, 0x00, 0x00, 0x40, 0x80, 0x00, 0x00]"

text \<open>The first ten bytes of a record.\<close>

definition truncated_record :: "byte list" where
  "truncated_record =
    [0x49, 0x6F, 0x75, 0x74, 0x00, 0xE3, 0x00, 0x00,
     0x00, 0x05]"

section \<open>What the getters and the header read\<close>

lemma get8_drop:
  "get8 (drop k bs) = (if k < length bs then Inr (u8_at bs k, drop (k + 1) bs) else Inl UnexpectedEOF)"
  by (simp add: get8_def and_then_def fileobj_read_def ret_def raise_def u8_at_def
      take_Suc_conv_app_nth hd_drop_conv_nth)

lemma get8_Nil: "get8 [] = Inl UnexpectedEOF"
  by (simp add: get8_def and_then_def fileobj_read_def raise_def)

lemma get16_drop:
  "get16 (drop k bs) = (if k + 2 \<le> length bs then Inr (u16_at bs k, drop (k + 2) bs) else Inl UnexpectedEOF)"
proof -
  have "get16 (drop k bs) =
      (case get8 (drop k bs) of Inl e \<Rightarrow> Inl e
       | Inr (b0, f) \<Rightarrow> (case get8 f of Inl e \<Rightarrow> Inl e | Inr (b1, f') \<Rightarrow> Inr (push_bit 8 b0 OR b1, f')))"
    by (simp add: get16_def and_then_def ret_def split: sum.splits)
  also have "\<dots> = (if k + 2 \<le> length bs then Inr (u16_at bs k, drop (k + 2) bs) else Inl UnexpectedEOF)"
    using get8_drop [of k bs] get8_drop [of "k + 1" bs]
    by (auto simp: u16_at_def add.commute)
  finally show ?thesis .
qed

lemma get32_drop:
  "get32 (drop k bs) = (if k + 4 \<le> length bs then Inr (u32_at bs k, drop (k + 4) bs) else Inl UnexpectedEOF)"
proof -
  have "get32 (drop k bs) =
      (case get16 (drop k bs) of Inl e \<Rightarrow> Inl e
       | Inr (s0, f) \<Rightarrow> (case get16 f of Inl e \<Rightarrow> Inl e | Inr (s1, f') \<Rightarrow> Inr (push_bit 16 s0 OR s1, f')))"
    by (simp add: get32_def and_then_def ret_def split: sum.splits)
  also have "\<dots> = (if k + 4 \<le> length bs then Inr (u32_at bs k, drop (k + 4) bs) else Inl UnexpectedEOF)"
  proof -
    have e: "Suc (Suc (Suc (Suc k))) = k + 4" by simp
    show ?thesis
      using get16_drop [of k bs] get16_drop [of "k + 2" bs]
      by (auto simp: u32_at_def e)
  qed
  finally show ?thesis .
qed

lemma getfloat_drop:
  "getfloat (drop k bs) = (if k + 4 \<le> length bs then Inr (f32_at bs k, drop (k + 4) bs) else Inl UnexpectedEOF)"
  by (simp add: getfloat_def and_then_def get32_drop ret_def f32_at_def)

lemma read_header_magic:
  "take 4 bs \<noteq> Iout \<Longrightarrow> read_header bs = Inl MagicNotFound"
  by (simp add: read_header_def and_then_def fileobj_read_def raise_def)

lemma read_header_full:
  assumes "take 4 bs = Iout" and "64 \<le> length bs"
  shows "read_header bs = Inr (header_at bs, drop 64 bs)"
  using assms
  by (simp add: read_header_def and_then_def fileobj_read_def ret_def header_at_def
      get8_drop get16_drop get32_drop getfloat_drop)

lemma read_header_short:
  assumes "take 4 bs = Iout" and "length bs < 64"
  shows "read_header bs = Inl UnexpectedEOF"
  using assms
  by (simp add: read_header_def and_then_def fileobj_read_def ret_def
      get8_drop get16_drop get32_drop getfloat_drop)

lemma get_list_drop:
  assumes getc: "\<And>k. getc (drop k bs) =
      (if k + w \<le> length bs then Inr (at k, drop (k + w) bs) else Inl UnexpectedEOF)"
    and w: "0 < w"
  shows "get_list getc n (drop k bs) =
      (if n = 0 \<or> k + w * n \<le> length bs
       then Inr (map (\<lambda>i. at (k + w * i)) [0..<n], drop (k + w * n) bs)
       else Inl UnexpectedEOF)"
proof (induction n arbitrary: k)
  case 0
  show ?case by (simp add: ret_def)
next
  case (Suc n)
  show ?case
  proof (cases "k + w \<le> length bs")
    case False
    with w have "\<not> k + w * Suc n \<le> length bs"
      by (metis add_leD1 mult_Suc_right add.assoc)
    with False show ?thesis
      by (simp add: and_then_def getc)
  next
    case True
    have m: "map (\<lambda>i. at (k + w * i)) [0..<Suc n] = at k # map (\<lambda>i. at (k + w + w * i)) [0..<n]"
      by (simp add: map_upt_Suc add.assoc del: upt_Suc)
    have "get_list getc (Suc n) (drop k bs) =
        (case get_list getc n (drop (k + w) bs) of Inl e \<Rightarrow> Inl e
         | Inr (vs, f) \<Rightarrow> Inr (at k # vs, f))"
      using True by (simp add: and_then_def getc ret_def split: sum.splits)
    also have "\<dots> = (if k + w * Suc n \<le> length bs
       then Inr (map (\<lambda>i. at (k + w * i)) [0..<Suc n], drop (k + w * Suc n) bs)
       else Inl UnexpectedEOF)"
      using True by (simp add: Suc.IH m add.assoc del: upt_Suc)
    finally show ?thesis by simp
  qed
qed

lemma get_list_get16:
  "get_list get16 n (drop k bs) =
      (if n = 0 \<or> k + 2 * n \<le> length bs
       then Inr (map (\<lambda>i. u16_at bs (k + 2 * i)) [0..<n], drop (k + 2 * n) bs)
       else Inl UnexpectedEOF)"
  by (rule get_list_drop [where w = 2]) (simp_all add: get16_drop)

lemma get_list_getfloat:
  "get_list getfloat n (drop k bs) =
      (if n = 0 \<or> k + 4 * n \<le> length bs
       then Inr (map (\<lambda>i. f32_at bs (k + 4 * i)) [0..<n], drop (k + 4 * n) bs)
       else Inl UnexpectedEOF)"
  by (rule get_list_drop [where w = 4]) (simp_all add: getfloat_drop)

lemma read_header_Inr:
  assumes "read_header bs = Inr (h, f)"
  shows "take 4 bs = Iout \<and> 64 \<le> length bs \<and> h = header_at bs \<and> f = drop 64 bs"
proof -
  have m: "take 4 bs = Iout"
    using assms read_header_magic [of bs] by auto
  have l: "64 \<le> length bs"
    using assms m read_header_short [of bs] by (cases "length bs < 64") auto
  show ?thesis
    using assms m l read_header_full [of bs] by simp
qed

lemma zip_map_same: "zip (map f xs) (map g xs) = map (\<lambda>x. (f x, g x)) xs"
  by (induction xs) simp_all


lemma upt_0_2: "[0..<2] = [0, Suc 0]"
  by (simp add: numeral_2_eq_2)


lemma read_roi_header_error:
  "read_header bs = Inl e \<Longrightarrow> read_roi bs = Inl e"
  by (simp add: read_roi_def)


lemma read_points_drop:
  assumes "64 \<le> length bs" and "n = nat (n_coordinates h)"
  shows "read_points h (drop 64 bs) =
    (if subPixelResolution h then
       (if 64 + 12 * n \<le> length bs
        then Inr (PointsFloat32 (zip (map (\<lambda>i. f32_at bs (64 + 8 * n + 4 * i)) [0..<n])
                                     (map (\<lambda>i. f32_at bs (64 + 4 * n + 4 * i)) [0..<n])),
                  drop (64 + 12 * n) bs)
        else Inl UnexpectedEOF)
     else
       (if 64 + 4 * n \<le> length bs
        then Inr (PointsInt16
                    (zip (map (\<lambda>i. word_of_int (u16_at bs (64 + 2 * n + 2 * i)) + word_of_int (top' h)) [0..<n])
                         (map (\<lambda>i. word_of_int (u16_at bs (64 + 2 * i)) + word_of_int (left h)) [0..<n])),
                  drop (64 + 4 * n) bs)
        else Inl UnexpectedEOF))"
proof (cases "subPixelResolution h")
  case True
  have "read_points h (drop 64 bs) =
      (case get_list getfloat n (drop (64 + 4 * n) bs) of Inl e \<Rightarrow> Inl e
       | Inr (col1, f) \<Rightarrow>
           (case get_list getfloat n f of Inl e \<Rightarrow> Inl e
            | Inr (col0, f') \<Rightarrow> Inr (PointsFloat32 (zip col0 col1), f')))"
    using True assms(2)
    by (simp add: read_points_def and_then_def fileobj_seek_cur_def ret_def nat_mult_distrib
        add.commute split: sum.splits)
  also have "\<dots> = (if 64 + 12 * n \<le> length bs
        then Inr (PointsFloat32 (zip (map (\<lambda>i. f32_at bs (64 + 8 * n + 4 * i)) [0..<n])
                                     (map (\<lambda>i. f32_at bs (64 + 4 * n + 4 * i)) [0..<n])),
                  drop (64 + 12 * n) bs)
        else Inl UnexpectedEOF)"
  proof -
    have e: "64 + 4 * n + 4 * n = 64 + 8 * n" "64 + 8 * n + 4 * n = 64 + 12 * n"
      by simp_all
    note g1 = get_list_getfloat [of n "64 + 4 * n" bs, unfolded e]
    note g2 = get_list_getfloat [of n "64 + 8 * n" bs, unfolded e]
    show ?thesis
      unfolding g1 using assms(1) by (simp add: g2)
  qed
  finally show ?thesis using True by simp
next
  case False
  have "read_points h (drop 64 bs) =
      (case get_list get16 n (drop 64 bs) of Inl e \<Rightarrow> Inl e
       | Inr (col1, f) \<Rightarrow>
           (case get_list get16 n f of Inl e \<Rightarrow> Inl e
            | Inr (col0, f') \<Rightarrow>
                Inr (PointsInt16 (zip (map (\<lambda>v. word_of_int v + word_of_int (top' h)) col0)
                                      (map (\<lambda>v. word_of_int v + word_of_int (left h)) col1)), f')))"
    using False assms(2)
    by (simp add: read_points_def and_then_def ret_def split: sum.splits)
  also have "\<dots> = (if 64 + 4 * n \<le> length bs
        then Inr (PointsInt16
                    (zip (map (\<lambda>i. word_of_int (u16_at bs (64 + 2 * n + 2 * i)) + word_of_int (top' h)) [0..<n])
                         (map (\<lambda>i. word_of_int (u16_at bs (64 + 2 * i)) + word_of_int (left h)) [0..<n])),
                  drop (64 + 4 * n) bs)
        else Inl UnexpectedEOF)"
  proof -
    have e: "64 + 2 * n + 2 * n = 64 + 4 * n"
      by simp
    note g1 = get_list_get16 [of n 64 bs]
    note g2 = get_list_get16 [of n "64 + 2 * n" bs, unfolded e]
    show ?thesis
      unfolding g1 using assms(1) by (simp add: g2 comp_def)
  qed
  finally show ?thesis using False by simp
qed

lemma read_roi_full:
  assumes "take 4 bs = Iout" and "64 \<le> length bs" and "h = header_at bs"
  shows "read_roi bs =
     (if roi_type h \<notin> {FREEHAND, TRACED, POLYGON, RECT, POINT} then
        Inl (RoiTypeNotSupported (roi_type h))
      else if subtype h \<noteq> 0 then Inl (RoiSubtypeNotSupported (subtype h))
      else if shape_roi_size h > 0 then Inl NameError
      else if roi_type h = RECT then
        (if subPixelResolution h then
           Inr (PointsFloat32
             [(y1 h, x1 h), (y1 h, Float32_add (x1 h) (x2 h)),
              (Float32_add (y1 h) (y2 h), Float32_add (x1 h) (x2 h)),
              (Float32_add (y1 h) (y2 h), x1 h)])
         else
           Inr (PointsInt16
             [(word_of_int (top' h), word_of_int (left h)),
              (word_of_int (top' h), word_of_int (right h)),
              (word_of_int (bottom h), word_of_int (right h)),
              (word_of_int (bottom h), word_of_int (left h))]))
      else map_sum id fst (read_points h (drop 64 bs)))"
  using read_header_full [OF assms(1,2)] assms(3)
  by (simp add: read_roi_def split: sum.splits prod.splits)

lemma read_points_seek:
  assumes "subPixelResolution h"
    and "drop (nat (4 * n_coordinates h)) f = drop (nat (4 * n_coordinates h)) f'"
  shows "read_points h f = read_points h f'"
  using assms by (simp add: read_points_def and_then_def fileobj_seek_cur_def)

lemma header_at_prefix:
  assumes "64 \<le> length bs"
  shows "header_at (take 64 bs @ rest) = header_at bs"
  using assms
  by (simp add: header_at_def u8_at_def u16_at_def u32_at_def f32_at_def nth_append)

lemma u16_at_nonneg: "0 \<le> u16_at bs k"
  by (simp add: u16_at_def u8_at_def)

lemma int16_exact:
  "- 32768 \<le> k \<Longrightarrow> k < 32768 \<Longrightarrow> sint (word_of_int k :: int16) = k"
  by (simp add: int_word_sint)

section \<open>The claims\<close>

subsection \<open>Composite records\<close>

text \<open>
  C1. For a record with \<open>shape_roi_size > 0\<close> whose float data is a concatenation of
  straight-line segments, each closed by a tag-4 opcode, \<open>read_roi\<close> should return the
  list of point sequences, one per terminator, each point reversed from (x, y) to (y, x).
  The code does not: such a record passes the checks of \<open>roi_type\<close> and \<open>subtype\<close>,
  enters the composite branch, and there line 116 evaluates the unbound name
  \<open>file_obj\<close>. On the record below (two segments of one point each, 8 floats)
  \<open>read_roi\<close> raises \<open>NameError\<close> and returns no segment.
\<close>

theorem read_roi_composite_NameError:
  "read_roi composite_record = Inl NameError"
proof -
  have "take 4 composite_record = Iout" and "64 \<le> length composite_record"
    by (simp_all add: composite_record_def Iout_def)
  from read_roi_full [OF this refl] show ?thesis
    by (simp add: header_at_def u8_at_def u16_at_def u32_at_def composite_record_def)
qed

subsection \<open>Truncated input\<close>

text \<open>
  C2, as amended. An input of fewer than 64 bytes never yields a header or a geometry:
  \<open>read_roi\<close> fails with \<open>UnexpectedEOF\<close> when the first four bytes are the
  signature \<open>Iout\<close>, and with \<open>MagicNotFound\<close> otherwise (the signature is compared
  before any end-of-file check).
\<close>

theorem read_roi_truncated:
  "length bs < 64 \<Longrightarrow>
     read_roi bs = Inl (if take 4 bs = Iout then UnexpectedEOF else MagicNotFound)"
  by (simp add: read_header_magic read_header_short read_roi_header_error)

theorem read_roi_truncated_witness:
  "length truncated_record < 64 \<and> take 4 truncated_record = Iout \<and>
   read_roi truncated_record = Inl UnexpectedEOF"
  using read_roi_truncated [of truncated_record]
  by (simp add: truncated_record_def Iout_def)

text \<open>
  C2 as stated (every input shorter than the header fails with \<open>UnexpectedEOF\<close>)
  does not hold: the empty input fails with \<open>MagicNotFound\<close>.
\<close>

theorem read_roi_truncated_counterexample:
  "length ([] :: byte list) < 64 \<and> read_roi [] = Inl MagicNotFound \<and>
   read_roi [] \<noteq> Inl UnexpectedEOF"
  by (simp add: read_roi_def read_header_def and_then_def fileobj_read_def raise_def Iout_def)

text \<open>
  C10. Every input of fewer than 4 bytes fails with \<open>MagicNotFound\<close>, not with an
  end-of-file error: the short read of the signature is compared with \<open>Iout\<close>.
\<close>

theorem read_roi_short_magic:
  "length bs < 4 \<Longrightarrow> read_roi bs = Inl MagicNotFound"
proof -
  assume "length bs < 4"
  then have "take 4 bs \<noteq> Iout"
    by (auto simp: Iout_def dest: arg_cong [where f = length])
  then show ?thesis
    by (simp add: read_header_magic read_roi_header_error)
qed

theorem read_roi_short_magic_witness:
  "length [0x49, 0x6F :: byte] < 4 \<and> read_roi [0x49, 0x6F] = Inl MagicNotFound"
  using read_roi_short_magic [of "[0x49, 0x6F]"] by simp

subsection \<open>Unsupported types\<close>

text \<open>
  C9. A record with the signature and a full header (64 bytes) whose \<open>roi_type\<close>,
  the byte at offset 6, is not one of FREEHAND, TRACED, POLYGON, RECT, POINT fails with
  \<open>RoiTypeNotSupported\<close>; a record whose \<open>roi_type\<close> is one of them never fails with
  that error.
\<close>

theorem read_roi_unsupported_type:
  assumes "take 4 bs = Iout" and "64 \<le> length bs"
  shows "(u8_at bs 6 \<notin> {FREEHAND, TRACED, POLYGON, RECT, POINT} \<longrightarrow>
            read_roi bs = Inl (RoiTypeNotSupported (u8_at bs 6))) \<and>
         (u8_at bs 6 \<in> {FREEHAND, TRACED, POLYGON, RECT, POINT} \<longrightarrow>
            (\<forall>t. read_roi bs \<noteq> Inl (RoiTypeNotSupported t)))"
proof -
  have t: "roi_type (header_at bs) = u8_at bs 6"
    by (simp add: header_at_def)
  show ?thesis
    unfolding read_roi_full [OF assms refl] t
    using read_points_drop [OF assms(2) refl, of "header_at bs"]
    by (simp split: if_splits)
qed

theorem read_roi_unsupported_type_witness:
  "u8_at oval_record 6 = OVAL \<and> read_roi oval_record = Inl (RoiTypeNotSupported OVAL) \<and>
   u8_at rect_record 6 = RECT \<and> read_roi rect_record \<noteq> Inl (RoiTypeNotSupported RECT)"
proof -
  have o: "take 4 oval_record = Iout" "64 \<le> length oval_record" "u8_at oval_record 6 = 2"
    by (simp_all add: oval_record_def Iout_def u8_at_def)
  have r: "take 4 rect_record = Iout" "64 \<le> length rect_record" "u8_at rect_record 6 = 1"
    by (simp_all add: rect_record_def Iout_def u8_at_def)
  show ?thesis
    using read_roi_unsupported_type [OF o(1,2)] read_roi_unsupported_type [OF r(1,2)] o(3) r(3)
    by simp
qed

subsection \<open>Rectangles\<close>

text \<open>
  C5. A rectangle record (\<open>roi_type\<close> RECT, \<open>subtype\<close> 0, \<open>shape_roi_size\<close> 0) with
  sub-pixel resolution off decodes to exactly four points of dtype int16, in the order
  [top, left], [top, right], [bottom, right], [bottom, left]. Each coordinate is the
  header field cast to int16 (\<open>word_of_int\<close>: a field from 32768 on reads as negative).
\<close>

theorem read_roi_rect_int16:
  assumes "read_header bs = Inr (h, f)"
    and "roi_type h = RECT" and "subtype h = 0" and "shape_roi_size h = 0"
    and "\<not> subPixelResolution h"
  shows "read_roi bs = Inr (PointsInt16
           [(word_of_int (top' h), word_of_int (left h)),
            (word_of_int (top' h), word_of_int (right h)),
            (word_of_int (bottom h), word_of_int (right h)),
            (word_of_int (bottom h), word_of_int (left h))])"
  using assms by (simp add: read_roi_def)

theorem read_roi_rect_int16_witness:
  "read_roi rect_record = Inr (PointsInt16 [(5, 3), (5, 32), (16, 32), (16, 3)])"
proof -
  have "take 4 rect_record = Iout" and "64 \<le> length rect_record"
    by (simp_all add: rect_record_def Iout_def)
  from read_header_full [OF this]
  have h: "read_header rect_record = Inr (header_at rect_record, drop 64 rect_record)" .
  have v: "roi_type (header_at rect_record) = RECT" "subtype (header_at rect_record) = 0"
    "shape_roi_size (header_at rect_record) = 0" "\<not> subPixelResolution (header_at rect_record)"
    "top' (header_at rect_record) = 5" "left (header_at rect_record) = 3"
    "bottom (header_at rect_record) = 16" "right (header_at rect_record) = 32"
    by (simp_all add: header_at_def subPixelResolution_def u8_at_def u16_at_def u32_at_def
        rect_record_def)
  show ?thesis
    using read_roi_rect_int16 [OF h v(1-4)] by (simp add: v)
qed

text \<open>
  C6. A rectangle record with the SubPixelResolution bit of \<open>options\<close> set and
  \<open>version\<close> at least 222 decodes to exactly four float32 points
  [y1, x1], [y1, x1 + x2], [y1 + y2, x1 + x2], [y1 + y2, x1]: \<open>x2\<close> and \<open>y2\<close> are
  added to the corner (\<open>x1\<close>, \<open>y1\<close>) as width and height.
\<close>

theorem read_roi_rect_float32:
  assumes "read_header bs = Inr (h, f)"
    and "roi_type h = RECT" and "subtype h = 0" and "shape_roi_size h = 0"
    and "(options h AND SUB_PIXEL_RESOLUTION) \<noteq> 0" and "222 \<le> version h"
  shows "read_roi bs = Inr (PointsFloat32
           [(y1 h, x1 h), (y1 h, Float32_add (x1 h) (x2 h)),
            (Float32_add (y1 h) (y2 h), Float32_add (x1 h) (x2 h)),
            (Float32_add (y1 h) (y2 h), x1 h)])"
  using assms by (simp add: read_roi_def subPixelResolution_def)

theorem read_roi_rect_float32_witness:
  "read_roi rect_subpixel_record = Inr (PointsFloat32
     [(Float32 0x40200000, Float32 0x3FC00000),
      (Float32 0x40200000, Float32_add (Float32 0x3FC00000) (Float32 0x40800000)),
      (Float32_add (Float32 0x40200000) (Float32 0x41000000),
       Float32_add (Float32 0x3FC00000) (Float32 0x40800000)),
      (Float32_add (Float32 0x40200000) (Float32 0x41000000), Float32 0x3FC00000)])"
proof -
  have "take 4 rect_subpixel_record = Iout" and "64 \<le> length rect_subpixel_record"
    by (simp_all add: rect_subpixel_record_def Iout_def)
  from read_header_full [OF this]
  have h: "read_header rect_subpixel_record =
      Inr (header_at rect_subpixel_record, drop 64 rect_subpixel_record)" .
  have v: "roi_type (header_at rect_subpixel_record) = RECT"
    "subtype (header_at rect_subpixel_record) = 0"
    "shape_roi_size (header_at rect_subpixel_record) = 0"
    "(options (header_at rect_subpixel_record) AND SUB_PIXEL_RESOLUTION) \<noteq> 0"
    "222 \<le> version (header_at rect_subpixel_record)"
    "x1 (header_at rect_subpixel_record) = Float32 0x3FC00000"
    "y1 (header_at rect_subpixel_record) = Float32 0x40200000"
    "x2 (header_at rect_subpixel_record) = Float32 0x40800000"
    "y2 (header_at rect_subpixel_record) = Float32 0x41000000"
    by (simp_all add: header_at_def u8_at_def u16_at_def u32_at_def f32_at_def
        rect_subpixel_record_def)
  show ?thesis
    using read_roi_rect_float32 [OF h v(1-5)] by (simp add: v)
qed

subsection \<open>Point lists\<close>

text \<open>
  C3, as amended. A point-list record (\<open>roi_type\<close> FREEHAND, TRACED, POLYGON or
  POINT, \<open>subtype\<close> 0, \<open>shape_roi_size\<close> 0) decoded without sub-pixel resolution,
  with all its \<open>4 * n_coordinates\<close> coordinate bytes present: the columns (x) are
  the \<open>n\<close> big-endian 16-bit values from offset 64, the rows (y) the \<open>n\<close> values
  after them, and row \<open>i\<close> of the result is (top + y(i), left + x(i)) reduced to a
  signed 16-bit integer by two's complement wrap-around (\<open>word_of_int\<close>): the array
  has dtype int16 and the additions are done in it. A coordinate of the result is the
  sum itself whenever that sum is below 32768.
\<close>

theorem read_roi_points_int16:
  assumes "read_header bs = Inr (h, f)"
    and "roi_type h \<in> {FREEHAND, TRACED, POLYGON, POINT}"
    and "subtype h = 0" and "shape_roi_size h = 0"
    and "\<not> subPixelResolution h"
    and "n = nat (n_coordinates h)"
    and "64 + 4 * n \<le> length bs"
  shows "\<exists>rows. read_roi bs = Inr (PointsInt16 rows) \<and>
           rows = map (\<lambda>i.
             (word_of_int (top' h + u16_at bs (64 + 2 * n + 2 * i)),
              word_of_int (left h + u16_at bs (64 + 2 * i)))) [0..<n] \<and>
           (\<forall>i<n.
              (top' h + u16_at bs (64 + 2 * n + 2 * i) < 32768 \<longrightarrow>
                 sint (fst (rows ! i)) = top' h + u16_at bs (64 + 2 * n + 2 * i)) \<and>
              (left h + u16_at bs (64 + 2 * i) < 32768 \<longrightarrow>
                 sint (snd (rows ! i)) = left h + u16_at bs (64 + 2 * i)))"
proof -
  from read_header_Inr [OF assms(1)]
  have b: "take 4 bs = Iout" "64 \<le> length bs" "h = header_at bs"
    by simp_all
  let ?rows = "map (\<lambda>i.
             (word_of_int (top' h + u16_at bs (64 + 2 * n + 2 * i)) :: int16,
              word_of_int (left h + u16_at bs (64 + 2 * i)) :: int16)) [0..<n]"
  have r: "read_roi bs = Inr (PointsInt16 ?rows)"
    unfolding read_roi_full [OF b] read_points_drop [OF b(2) assms(6)]
    using assms(2-5,7)
    by (auto simp: zip_map_same add.commute)
  have t: "0 \<le> top' h" "0 \<le> left h"
    by (simp_all add: b(3) header_at_def u16_at_nonneg)
  have e: "sint (fst (?rows ! i)) = top' h + u16_at bs (64 + 2 * n + 2 * i)"
    if "i < n" "top' h + u16_at bs (64 + 2 * n + 2 * i) < 32768" for i
  proof -
    have "- 32768 \<le> top' h + u16_at bs (64 + 2 * n + 2 * i)"
      using t(1) u16_at_nonneg [of bs "64 + 2 * n + 2 * i"] by linarith
    from int16_exact [OF this that(2)] that(1) show ?thesis
      by simp
  qed
  have e': "sint (snd (?rows ! i)) = left h + u16_at bs (64 + 2 * i)"
    if "i < n" "left h + u16_at bs (64 + 2 * i) < 32768" for i
  proof -
    have "- 32768 \<le> left h + u16_at bs (64 + 2 * i)"
      using t(2) u16_at_nonneg [of bs "64 + 2 * i"] by linarith
    from int16_exact [OF this that(2)] that(1) show ?thesis
      by simp
  qed
  from r e e' show ?thesis
    by blast
qed

theorem read_roi_points_int16_witness:
  "read_roi polygon_record = Inr (PointsInt16 [(15, 4), (25, 5)]) \<and>
   sint (15 :: int16) = 5 + 10 \<and> sint (4 :: int16) = 3 + 1"
proof -
  have "take 4 polygon_record = Iout" and "64 \<le> length polygon_record"
    by (simp_all add: polygon_record_def Iout_def)
  from read_header_full [OF this]
  have h: "read_header polygon_record = Inr (header_at polygon_record, drop 64 polygon_record)" .
  have v: "roi_type (header_at polygon_record) \<in> {FREEHAND, TRACED, POLYGON, POINT}"
    "subtype (header_at polygon_record) = 0"
    "shape_roi_size (header_at polygon_record) = 0"
    "\<not> subPixelResolution (header_at polygon_record)"
    "2 = nat (n_coordinates (header_at polygon_record))"
    "64 + 4 * 2 \<le> length polygon_record"
    by (simp_all add: header_at_def subPixelResolution_def u8_at_def u16_at_def u32_at_def
        polygon_record_def)
  have t: "top' (header_at polygon_record) = 5" "left (header_at polygon_record) = 3"
    by (simp_all add: header_at_def u8_at_def u16_at_def polygon_record_def)
  from read_roi_points_int16 [OF h v]
  have "read_roi polygon_record = Inr (PointsInt16 (map (\<lambda>i.
             (word_of_int (top' (header_at polygon_record) + u16_at polygon_record (64 + 2 * 2 + 2 * i)),
              word_of_int (left (header_at polygon_record) + u16_at polygon_record (64 + 2 * i)))) [0..<2]))"
    by blast
  then have "read_roi polygon_record = Inr (PointsInt16 [(15, 4), (25, 5)])"
    unfolding t by (simp add: upt_0_2 u16_at_def u8_at_def polygon_record_def)
  then show ?thesis by simp
qed

text \<open>
  C3 as stated (every row equals (top + y(i), left + x(i))) does not hold: with top 5,
  left 3, x = 32765 and y = 32767, every value read fits in 16 signed bits, the sums
  are 32772 and 32768, and the row returned is (-32764, -32768).
\<close>

theorem read_roi_points_int16_counterexample:
  "read_header overflow_record = Inr (header_at overflow_record, drop 64 overflow_record) \<and>
   roi_type (header_at overflow_record) = POLYGON \<and>
   subtype (header_at overflow_record) = 0 \<and>
   shape_roi_size (header_at overflow_record) = 0 \<and>
   \<not> subPixelResolution (header_at overflow_record) \<and>
   n_coordinates (header_at overflow_record) = 1 \<and>
   length overflow_record = 64 + 4 * 1 \<and>
   top' (header_at overflow_record) + u16_at overflow_record 66 = 32772 \<and>
   left (header_at overflow_record) + u16_at overflow_record 64 = 32768 \<and>
   read_roi overflow_record = Inr (PointsInt16 [(- 32764, - 32768)]) \<and>
   sint (- 32764 :: int16) = - 32764 \<and> sint (- 32768 :: int16) = - 32768"
proof -
  have m: "take 4 overflow_record = Iout" "64 \<le> length overflow_record"
    by (simp_all add: overflow_record_def Iout_def)
  note h = read_header_full [OF m]
  have v: "roi_type (header_at overflow_record) = POLYGON"
    "subtype (header_at overflow_record) = 0"
    "shape_roi_size (header_at overflow_record) = 0"
    "\<not> subPixelResolution (header_at overflow_record)"
    "n_coordinates (header_at overflow_record) = 1"
    "top' (header_at overflow_record) = 5" "left (header_at overflow_record) = 3"
    by (simp_all add: header_at_def subPixelResolution_def u8_at_def u16_at_def u32_at_def
        overflow_record_def)
  have p: "u16_at overflow_record 66 = 32767" "u16_at overflow_record 64 = 32765"
    "length overflow_record = 68"
    by (simp_all add: u16_at_def u8_at_def overflow_record_def)
  have n: "1 = nat (n_coordinates (header_at overflow_record))"
    by (simp add: v)
  have u: "[0..<1] = [0 :: nat]"
    by simp
  have r: "read_roi overflow_record = Inr (PointsInt16 [(- 32764, - 32768)])"
    unfolding read_roi_full [OF m refl] read_points_drop [OF m(2) n] u
    by (simp add: v p)
  have s: "sint (- 32764 :: int16) = - 32764" "sint (- 32768 :: int16) = - 32768"
    by simp_all
  have a: "top' (header_at overflow_record) + u16_at overflow_record 66 = 32772"
    "left (header_at overflow_record) + u16_at overflow_record 64 = 32768"
    "length overflow_record = 64 + 4 * 1"
    by (simp_all add: v p)
  show ?thesis
    by (intro conjI) (fact h v(1-5) a r s)+
qed

text \<open>
  C4. A point-list record decoded with sub-pixel resolution, with its
  \<open>12 * n_coordinates\<close> bytes after the header present: \<open>read_roi\<close> skips the
  \<open>4 * n\<close> bytes at offset 64, takes the next \<open>n\<close> float32 values as columns (x)
  and the \<open>n\<close> after them as rows (y), and returns the pairs (y(i), x(i)) as read, with
  no offset added. The skipped bytes are not read: replacing them by any other
  \<open>4 * n\<close> bytes leaves the result unchanged.
\<close>

theorem read_roi_points_float32:
  assumes "read_header bs = Inr (h, f)"
    and "roi_type h \<in> {FREEHAND, TRACED, POLYGON, POINT}"
    and "subtype h = 0" and "shape_roi_size h = 0"
    and "subPixelResolution h"
    and "n = nat (n_coordinates h)"
    and "64 + 12 * n \<le> length bs"
  shows "read_roi bs = Inr (PointsFloat32 (map (\<lambda>i.
           (f32_at bs (64 + 4 * n + 4 * n + 4 * i), f32_at bs (64 + 4 * n + 4 * i))) [0..<n])) \<and>
         (\<forall>gap. length gap = 4 * n \<longrightarrow>
            read_roi (take 64 bs @ gap @ drop (64 + 4 * n) bs) = read_roi bs)"
proof (intro conjI allI impI)
  from read_header_Inr [OF assms(1)]
  have b: "take 4 bs = Iout" "64 \<le> length bs" "h = header_at bs"
    by simp_all
  show "read_roi bs = Inr (PointsFloat32 (map (\<lambda>i.
           (f32_at bs (64 + 4 * n + 4 * n + 4 * i), f32_at bs (64 + 4 * n + 4 * i))) [0..<n]))"
  proof -
    have e: "64 + 4 * n + 4 * n + 4 * i = 64 + 8 * n + 4 * i" for i
      by simp
    show ?thesis
      unfolding read_roi_full [OF b] read_points_drop [OF b(2) assms(6)] e
      using assms(2-5,7)
      by (auto simp: zip_map_same)
  qed
  fix gap :: "byte list"
  assume g: "length gap = 4 * n"
  let ?bs = "take 64 bs @ gap @ drop (64 + 4 * n) bs"
  have b': "take 4 ?bs = Iout" "64 \<le> length ?bs" "h = header_at ?bs"
    using b by (simp_all add: header_at_prefix)
  have n4: "nat (4 * n_coordinates h) = 4 * n"
    using assms(6) by (simp add: nat_mult_distrib)
  have "drop 64 ?bs = gap @ drop (64 + 4 * n) bs"
    using b(2) by simp
  then have "read_points h (drop 64 ?bs) = read_points h (drop 64 bs)"
    using g by (intro read_points_seek [OF assms(5)]) (simp add: n4 add.commute)
  then show "read_roi ?bs = read_roi bs"
    unfolding read_roi_full [OF b] read_roi_full [OF b'] by simp
qed

theorem read_roi_points_float32_witness:
  "read_roi subpixel_record = Inr (PointsFloat32 [(Float32 0x40200000, Float32 0x3FC00000)]) \<and>
   read_roi (take 64 subpixel_record @ [0xAA, 0xBB, 0xCC, 0xDD] @ drop 68 subpixel_record) =
     read_roi subpixel_record"
proof -
  have "take 4 subpixel_record = Iout" and "64 \<le> length subpixel_record"
    by (simp_all add: subpixel_record_def Iout_def)
  from read_header_full [OF this]
  have h: "read_header subpixel_record = Inr (header_at subpixel_record, drop 64 subpixel_record)" .
  have v: "roi_type (header_at subpixel_record) \<in> {FREEHAND, TRACED, POLYGON, POINT}"
    "subtype (header_at subpixel_record) = 0"
    "shape_roi_size (header_at subpixel_record) = 0"
    "subPixelResolution (header_at subpixel_record)"
    "1 = nat (n_coordinates (header_at subpixel_record))"
    "64 + 12 * 1 \<le> length subpixel_record"
    by (simp_all add: header_at_def subPixelResolution_def u8_at_def u16_at_def u32_at_def
        subpixel_record_def)
  have p: "f32_at subpixel_record 72 = Float32 0x40200000"
    "f32_at subpixel_record 68 = Float32 0x3FC00000"
    by (simp_all add: f32_at_def u32_at_def u16_at_def u8_at_def subpixel_record_def)
  have l: "length [0xAA, 0xBB, 0xCC, 0xDD :: byte] = 4 * 1"
    by simp
  have u: "[0..<1] = [0 :: nat]"
    by simp
  note t = read_roi_points_float32 [OF h v]
  have 1: "read_roi subpixel_record = Inr (PointsFloat32 [(Float32 0x40200000, Float32 0x3FC00000)])"
    using t [THEN conjunct1] unfolding u by (simp add: p)
  have 2: "read_roi (take 64 subpixel_record @ [0xAA, 0xBB, 0xCC, 0xDD] @ drop 68 subpixel_record) =
      read_roi subpixel_record"
    using t [THEN conjunct2, rule_format, OF l] by simp
  from 1 2 show ?thesis by simp
qed

text \<open>
  C8. A point-list record with \<open>n_coordinates = 0\<close> decodes to an empty array (no
  row), of dtype float32 with sub-pixel resolution and int16 without; it is not an error.
\<close>

theorem read_roi_no_coordinates:
  assumes "read_header bs = Inr (h, f)"
    and "roi_type h \<in> {FREEHAND, TRACED, POLYGON, POINT}"
    and "subtype h = 0" and "shape_roi_size h = 0"
    and "n_coordinates h = 0"
  shows "read_roi bs = Inr (if subPixelResolution h then PointsFloat32 [] else PointsInt16 [])"
  using assms
  by (auto simp: read_roi_def read_points_def and_then_def ret_def fileobj_seek_cur_def)

theorem read_roi_no_coordinates_witness:
  "read_roi empty_record = Inr (PointsInt16 [])"
proof -
  have "take 4 empty_record = Iout" and "64 \<le> length empty_record"
    by (simp_all add: empty_record_def Iout_def)
  from read_header_full [OF this]
  have h: "read_header empty_record = Inr (header_at empty_record, drop 64 empty_record)" .
  have v: "roi_type (header_at empty_record) \<in> {FREEHAND, TRACED, POLYGON, POINT}"
    "subtype (header_at empty_record) = 0"
    "shape_roi_size (header_at empty_record) = 0"
    "n_coordinates (header_at empty_record) = 0"
    "\<not> subPixelResolution (header_at empty_record)"
    by (simp_all add: header_at_def subPixelResolution_def u8_at_def u16_at_def u32_at_def
        empty_record_def)
  show ?thesis
    using read_roi_no_coordinates [OF h v(1-4)] by (simp add: v)
qed

subsection \<open>The version gate\<close>



end
